theory Spec2Isabelle
  imports
    Complex_Main
    "HOL-Library.Char_ord"
    "HOL-Library.List_Lexorder"
    "HOL-Library.Product_Lexorder"
    "HOL-Library.AList"
    "HOL-Library.Sublist"
begin

section \<open>Python values and errors\<close>

text \<open>
  The exceptions that the modelled functions can raise. Each carries the text that
  identifies it: the key of a \<open>KeyError\<close>, the variable of an
  \<open>UnboundLocalError\<close>, the message of a \<open>ValueError\<close> or \<open>TypeError\<close>. \<open>RequestError\<close>
  stands for whatever the HTTP client or the response decoding raises.
  Python floats are modelled as \<open>real\<close>: rounding is not part of the model.
\<close>

datatype error =
    KeyError string
  | UnboundLocalError string
  | ValueError string
  | TypeError string
  | ZeroDivisionError
  | RequestError string

text \<open>Python's true division \<open>a / b\<close> on numbers.\<close>

definition py_truediv :: "real \<Rightarrow> real \<Rightarrow> error + real" where
  "py_truediv a b = (if b = 0 then Inl ZeroDivisionError else Inr (a / b))"

text \<open>Python's \<open>a or b\<close> on booleans: \<open>a\<close> when it is truthy, otherwise \<open>b\<close>.\<close>

definition py_or :: "bool \<Rightarrow> bool \<Rightarrow> bool" where
  "py_or a b = (if a then a else b)"

section \<open>Feature collections\<close>

text \<open>
  A GeoDataFrame is a coordinate reference system and an ordered sequence of rows.
  Every row has a geometry; the further columns are the fields of the row record.
  The geometry type \<open>'g\<close> and the operations of the geometry library (area,
  predicates, overlay, reprojection) are parameters of the functions below.
\<close>

record 'g feature =
  geometry :: 'g


record 'g land_use_feature = "'g feature" +
  landuse_type :: string
  area_ha :: "real option"


record 'r geodataframe =
  crs :: string
  rows :: "'r list"

text \<open>Boolean-mask indexing \<open>gdf[mask]\<close>: the rows whose mask entry is true, in order.\<close>

definition gdf_getitem_mask :: "'r geodataframe \<Rightarrow> bool list \<Rightarrow> 'r geodataframe" where
  "gdf_getitem_mask gdf msk = gdf\<lparr>rows := map fst (filter snd (zip (rows gdf) msk))\<rparr>"

text \<open>
  \<open>gdf.geometry.p(target)\<close> for a binary predicate \<open>p\<close> of the geometry library:
  one boolean per row, the row's geometry on the left and the target on the right.
\<close>

definition geoseries_predicate ::
  "('g \<Rightarrow> 'g \<Rightarrow> bool) \<Rightarrow> ('g, 'z) feature_scheme geodataframe \<Rightarrow> 'g \<Rightarrow> bool list" where
  "geoseries_predicate p gdf target = map (\<lambda>r. p (geometry r) target) (rows gdf)"

section \<open>Sample geometries\<close>

text \<open>
  The geometries that \<open>create_sample_data\<close> builds: \<open>Point(x, y)\<close> and the
  axis-parallel rectangle \<open>box(minx, miny, maxx, maxy)\<close>. Their area and predicates
  follow the geometry library: a point has area 0; \<open>intersects\<close> is sharing a point
  of the closed shapes; \<open>a.contains(b)\<close> asks that no point of \<open>b\<close> lies outside
  \<open>a\<close> and that the interiors meet, so a point on the border of a rectangle is
  not contained in it; \<open>a.within(b)\<close> is \<open>b.contains(a)\<close>.
\<close>

datatype shape = Point real real | Box real real real real

fun xlo :: "shape \<Rightarrow> real" where
  "xlo (Point x y) = x"
| "xlo (Box minx miny maxx maxy) = min minx maxx"

fun xhi :: "shape \<Rightarrow> real" where
  "xhi (Point x y) = x"
| "xhi (Box minx miny maxx maxy) = max minx maxx"

fun ylo :: "shape \<Rightarrow> real" where
  "ylo (Point x y) = y"
| "ylo (Box minx miny maxx maxy) = min miny maxy"

fun yhi :: "shape \<Rightarrow> real" where
  "yhi (Point x y) = y"
| "yhi (Box minx miny maxx maxy) = max miny maxy"

definition shape_area :: "shape \<Rightarrow> real" where
  "shape_area g = (xhi g - xlo g) * (yhi g - ylo g)"

definition shape_intersects :: "shape \<Rightarrow> shape \<Rightarrow> bool" where
  "shape_intersects a b =
     (xlo a \<le> xhi b \<and> xlo b \<le> xhi a \<and> ylo a \<le> yhi b \<and> ylo b \<le> yhi a)"

fun shape_contains :: "shape \<Rightarrow> shape \<Rightarrow> bool" where
  "shape_contains (Point x y) (Point u v) = (x = u \<and> y = v)"
| "shape_contains (Point x y) (Box minx miny maxx maxy) = False"
| "shape_contains (Box minx miny maxx maxy) (Point x y) =
     (min minx maxx < x \<and> x < max minx maxx \<and> min miny maxy < y \<and> y < max miny maxy)"
| "shape_contains (Box minx miny maxx maxy) (Box minx' miny' maxx' maxy') =
     (min minx maxx \<le> min minx' maxx' \<and> max minx' maxx' \<le> max minx maxx \<and>
      min miny maxy \<le> min miny' maxy' \<and> max miny' maxy' \<le> max miny maxy)"

definition shape_within :: "shape \<Rightarrow> shape \<Rightarrow> bool" where
  "shape_within a b = shape_contains b a"

section \<open>Spatial query (\<open>3.1_spatial_query_analysis.py\<close>)\<close>

text \<open>
  \<open>perform_spatial_query(gdf, target_geometry, operation='intersects')\<close>.
  The three branches bind the local \<open>mask\<close>; the chain has no \<open>else\<close>, so for any
  other \<open>operation\<close> the final \<open>gdf[mask]\<close> reads an unbound local.
\<close>

definition perform_spatial_query ::
  "('g \<Rightarrow> 'g \<Rightarrow> bool) \<Rightarrow> ('g \<Rightarrow> 'g \<Rightarrow> bool) \<Rightarrow> ('g \<Rightarrow> 'g \<Rightarrow> bool) \<Rightarrow>
   ('g, 'z) feature_scheme geodataframe \<Rightarrow> 'g \<Rightarrow> string \<Rightarrow>
   error + ('g, 'z) feature_scheme geodataframe" where
  "perform_spatial_query intersects_p within_p contains_p gdf target_geometry operation =
     (if operation = ''intersects'' then
        Inr (gdf_getitem_mask gdf (geoseries_predicate intersects_p gdf target_geometry))
      else if operation = ''within'' then
        Inr (gdf_getitem_mask gdf (geoseries_predicate within_p gdf target_geometry))
      else if operation = ''contains'' then
        Inr (gdf_getitem_mask gdf (geoseries_predicate contains_p gdf target_geometry))
      else Inl (UnboundLocalError ''mask''))"

section \<open>Overlap analysis (\<open>3.1_spatial_query_analysis.py\<close>)\<close>









section \<open>Map service comparison (\<open>3.2_map_service_compar.py\<close>)\<close>

text \<open>The request URL, an f-string over the location name and the API key.\<close>

definition geocode_url :: "string \<Rightarrow> string \<Rightarrow> string" where
  "geocode_url api_key location_name =
     ''https://maps.googleapis.com/maps/api/geocode/json?address='' @ location_name
       @ ''&key='' @ api_key"

text \<open>
  Lines 12 to 14: the two overlay areas and the guarded quotient. The overlay
  operations and the area are those of the geometry library.
\<close>

definition iou_score ::
  "('g \<Rightarrow> 'g \<Rightarrow> 'g) \<Rightarrow> ('g \<Rightarrow> 'g \<Rightarrow> 'g) \<Rightarrow> ('g \<Rightarrow> real) \<Rightarrow> 'g \<Rightarrow> 'g \<Rightarrow> error + real" where
  "iou_score intersection_op union_op area your_data_geometry google_geom =
     (let intersection_area = area (intersection_op your_data_geometry google_geom);
          union_area = area (union_op your_data_geometry google_geom)
      in if union_area > 0 then py_truediv intersection_area union_area else Inr 0)"

text \<open>
  \<open>compare_with_google_maps(api_key, location_name, your_data_geometry)\<close>.
  \<open>requests_get_json\<close> is the call \<open>requests.get(url).json()\<close> of the HTTP
  library, which returns the decoded response or raises. The step that turns the
  response into \<open>google_geom\<close> is not in the source: lines 8 to 10 are comments
  and \<open>google_geom\<close> is never assigned. It is the parameter \<open>extract_geometry\<close>,
  which delivers a geometry or raises, the two outcomes that the specification
  gives the geocoding collaborator. The function has no exception handler, so an
  error of either step leaves it as raised.
\<close>

definition compare_with_google_maps ::
  "(string \<Rightarrow> error + 'resp) \<Rightarrow> ('resp \<Rightarrow> error + 'g) \<Rightarrow>
   ('g \<Rightarrow> 'g \<Rightarrow> 'g) \<Rightarrow> ('g \<Rightarrow> 'g \<Rightarrow> 'g) \<Rightarrow> ('g \<Rightarrow> real) \<Rightarrow>
   string \<Rightarrow> string \<Rightarrow> 'g \<Rightarrow> error + (real \<times> 'g)" where
  "compare_with_google_maps requests_get_json extract_geometry intersection_op union_op area
       api_key location_name your_data_geometry =
     (case requests_get_json (geocode_url api_key location_name) of
        Inl e \<Rightarrow> Inl e
      | Inr response \<Rightarrow>
          (case extract_geometry response of
             Inl e \<Rightarrow> Inl e
           | Inr google_geom \<Rightarrow>
               (case iou_score intersection_op union_op area your_data_geometry google_geom of
                  Inl e \<Rightarrow> Inl e
                | Inr iou \<Rightarrow> Inr (iou, google_geom))))"

section \<open>Pipeline configuration (\<open>main_igt_spatial_pipeline.py\<close>)\<close>

text \<open>
  Configuration values: strings, integers, booleans and nested dictionaries. A
  dictionary is an association list in insertion order with distinct keys.
\<close>

datatype config_value =
    CStr string
  | CInt int
  | CBool bool
  | CDict "(string \<times> config_value) list"

definition default_config :: "(string \<times> config_value) list" where
  "default_config =
     [(''database'', CDict
         [(''host'', CStr ''localhost''),
          (''port'', CInt 5432),
          (''database'', CStr ''igt_db''),
          (''user'', CStr ''postgres''),
          (''password'', CStr ''admin123'')]),
      (''use_sample_data'', CBool True),
      (''analysis'', CDict
         [(''target_province'', CStr ''JK''),
          (''connection_radius_km'', CInt 100),
          (''place_name'', CStr ''Jakarta, Indonesia'')])]"

text \<open>
  \<open>d.update(other)\<close>: every item of \<open>other\<close> is stored under its key, replacing the
  value of a key that is present and appending a key that is new.
\<close>

definition dict_update :: "(string \<times> 'v) list \<Rightarrow> (string \<times> 'v) list \<Rightarrow> (string \<times> 'v) list" where
  "dict_update d other = fold (\<lambda>kv acc. AList.update (fst kv) (snd kv) acc) other d"

text \<open>
  Lines 103 to 107 of \<open>main_execution_pipeline\<close>: \<open>if config:\<close> is false for
  \<open>None\<close> and for the empty dictionary.
\<close>

definition merge_config :: "(string \<times> config_value) list option \<Rightarrow> (string \<times> config_value) list" where
  "merge_config config =
     (case config of
        None \<Rightarrow> default_config
      | Some c \<Rightarrow> if c \<noteq> [] then dict_update default_config c else default_config)"

text \<open>
  The nested read \<open>config[section][field]\<close>, as in
  \<open>config['analysis']['place_name']\<close> (line 292): a missing key raises
  \<open>KeyError\<close>, and a value that is not a dictionary cannot be subscripted by a
  field name.
\<close>

definition config_get2 ::
  "(string \<times> config_value) list \<Rightarrow> string \<Rightarrow> string \<Rightarrow> error + config_value" where
  "config_get2 cfg section field =
     (case map_of cfg section of
        None \<Rightarrow> Inl (KeyError section)
      | Some (CDict d) \<Rightarrow>
          (case map_of d field of None \<Rightarrow> Inl (KeyError field) | Some v \<Rightarrow> Inr v)
      | Some _ \<Rightarrow> Inl (TypeError section))"

text \<open>The parsed command line: \<open>--module\<close>, \<open>--province\<close> (default \<open>JK\<close>), \<open>--sample-data\<close>.\<close>

record args =
  module :: "string option"
  province :: string
  sample_data :: bool

text \<open>Lines 438 to 445: the configuration that the entry point builds from the arguments.\<close>

definition my_config :: "args \<Rightarrow> (string \<times> config_value) list" where
  "my_config a =
     [(''use_sample_data'', CBool (py_or (sample_data a) True)),
      (''analysis'', CDict
         [(''target_province'', CStr (province a)),
          (''connection_radius_km'', CInt 150),
          (''place_name'', CStr (if province a = ''JI'' then ''Surabaya, Indonesia''
                                 else ''Jakarta, Indonesia''))])]"

section \<open>The aggregation as the specification words it\<close>






section \<open>Sample data\<close>

text \<open>
  The first two province rectangles of \<open>create_sample_data\<close>, which share the
  meridian 107.0, and small land-use layers over them.
\<close>

definition jakarta_bbox :: shape where
  "jakarta_bbox = Box (1065/10) (-(64/10)) 107 (-(61/10))"





definition sample_points :: "shape land_use_feature geodataframe" where
  "sample_points = \<lparr>crs = ''EPSG:4326'', rows =
     [\<lparr>geometry = Point (1067/10) (-(62/10)), landuse_type = ''Urban'', area_ha = Some 20\<rparr>,
      \<lparr>geometry = Point (1068/10) (-(63/10)), landuse_type = ''Forest'', area_ha = Some 100\<rparr>,
      \<lparr>geometry = Point 110 (-7), landuse_type = ''Water'', area_ha = Some 50\<rparr>]\<rparr>"






text \<open>A caller's configuration that overrides one field of the analysis section.\<close>

definition province_override :: "(string \<times> config_value) list" where
  "province_override = [(''analysis'', CDict [(''target_province'', CStr ''JI'')])]"



section \<open>Results about the spatial query\<close>

lemma mask_filter:
  "map fst (filter snd (zip xs (map P xs))) = filter P xs"
  by (induction xs) auto

lemma gdf_getitem_predicate:
  "gdf_getitem_mask gdf (geoseries_predicate p gdf t) =
     gdf\<lparr>rows := filter (\<lambda>r. p (geometry r) t) (rows gdf)\<rparr>"
  by (simp add: gdf_getitem_mask_def geoseries_predicate_def mask_filter)

text \<open>
  C2. For a selector outside \<open>intersects\<close>, \<open>within\<close>, \<open>contains\<close> the query does
  fail and falls back to no predicate, but the failure is the unbound local
  \<open>mask\<close>, whatever the selector: at \<open>operation = 'touches'\<close> the error is
  \<open>UnboundLocalError\<close> on \<open>mask\<close>, not an invalid-argument error naming
  \<open>touches\<close>.
\<close>

theorem perform_spatial_query_unknown_operation:
  "perform_spatial_query intersects_p within_p contains_p gdf target ''touches''
     = Inl (UnboundLocalError ''mask'')"
  by (simp add: perform_spatial_query_def)

lemma shape_contains_intersects:
  "shape_contains a b \<Longrightarrow> shape_intersects b a"
  by (cases a; cases b) (auto simp: shape_intersects_def min_def max_def)

text \<open>
  C7. For each of the three recognised selectors the query returns the input frame
  with its rows filtered by the selected predicate, evaluated with the row's
  geometry as receiver and the target as argument; \<open>filter\<close> keeps the original
  order, and the result is a subsequence of the input rows. In particular, when the
  target contains every input geometry (and containing implies intersecting, as in
  the geometry library), \<open>intersects\<close> returns the whole input unchanged.
\<close>

theorem perform_spatial_query_filters:
  "perform_spatial_query intersects_p within_p contains_p gdf t ''intersects''
     = Inr (gdf\<lparr>rows := filter (\<lambda>r. intersects_p (geometry r) t) (rows gdf)\<rparr>)
   \<and> perform_spatial_query intersects_p within_p contains_p gdf t ''within''
     = Inr (gdf\<lparr>rows := filter (\<lambda>r. within_p (geometry r) t) (rows gdf)\<rparr>)
   \<and> perform_spatial_query intersects_p within_p contains_p gdf t ''contains''
     = Inr (gdf\<lparr>rows := filter (\<lambda>r. contains_p (geometry r) t) (rows gdf)\<rparr>)
   \<and> (perform_spatial_query intersects_p within_p contains_p gdf t op = Inr res
        \<longrightarrow> subseq (rows res) (rows gdf))
   \<and> ((\<forall>a b. contains_p a b \<longrightarrow> intersects_p b a)
        \<and> (\<forall>r \<in> set (rows gdf). contains_p t (geometry r))
      \<longrightarrow> perform_spatial_query intersects_p within_p contains_p gdf t ''intersects''
            = Inr gdf)"
proof -
  have sub: "subseq (rows res) (rows gdf)"
    if "perform_spatial_query intersects_p within_p contains_p gdf t op = Inr res"
    using that
    by (auto simp: perform_spatial_query_def gdf_getitem_predicate split: if_splits)
  have full: "perform_spatial_query intersects_p within_p contains_p gdf t ''intersects''
      = Inr gdf"
    if law: "\<forall>a b. contains_p a b \<longrightarrow> intersects_p b a"
      and all: "\<forall>r \<in> set (rows gdf). contains_p t (geometry r)"
  proof -
    from law all have "\<forall>r \<in> set (rows gdf). intersects_p (geometry r) t"
      by blast
    then have "filter (\<lambda>r. intersects_p (geometry r) t) (rows gdf) = rows gdf"
      by (simp add: filter_id_conv)
    then show ?thesis
      by (simp add: perform_spatial_query_def gdf_getitem_predicate)
  qed
  show ?thesis
    using sub full
    by (simp add: perform_spatial_query_def gdf_getitem_predicate)
qed

text \<open>
  The theorem at the sample land-use layer: three points queried against the
  rectangle \<open>box(106.5, -6.4, 107.0, -6.1)\<close>, which contains the first two.
\<close>

theorem perform_spatial_query_filters_witness:
  "shape_contains jakarta_bbox (Point (1067/10) (-(62/10)))
   \<and> shape_contains jakarta_bbox (Point (1068/10) (-(63/10)))
   \<and> perform_spatial_query shape_intersects shape_within shape_contains
        (sample_points\<lparr>rows := take 2 (rows sample_points)\<rparr>) jakarta_bbox ''intersects''
       = Inr (sample_points\<lparr>rows := take 2 (rows sample_points)\<rparr>)
   \<and> perform_spatial_query shape_intersects shape_within shape_contains
        sample_points jakarta_bbox ''within''
       = Inr (sample_points\<lparr>rows := take 2 (rows sample_points)\<rparr>)
   \<and> subseq (take 2 (rows sample_points)) (rows sample_points)"
proof -
  let ?g = "sample_points\<lparr>rows := take 2 (rows sample_points)\<rparr>"
  note q = perform_spatial_query_filters
      [of shape_intersects shape_within shape_contains sample_points jakarta_bbox
          "''within''" ?g]
  note q2 = perform_spatial_query_filters
      [of shape_intersects shape_within shape_contains ?g jakarta_bbox]
  have law: "\<forall>a b. shape_contains a b \<longrightarrow> shape_intersects b a"
    by (simp add: shape_contains_intersects)
  have all: "\<forall>r \<in> set (rows ?g). shape_contains jakarta_bbox (geometry r)"
    by (simp add: sample_points_def jakarta_bbox_def)
  have w: "perform_spatial_query shape_intersects shape_within shape_contains
        sample_points jakarta_bbox ''within'' = Inr ?g"
    using q [THEN conjunct2, THEN conjunct1]
    by (simp add: sample_points_def jakarta_bbox_def shape_within_def)
  have "subseq (rows ?g) (rows sample_points)"
    by (rule mp [OF q [THEN conjunct2, THEN conjunct2, THEN conjunct2, THEN conjunct1] w])
  then have s: "subseq (take 2 (rows sample_points)) (rows sample_points)"
    by simp
  have i: "perform_spatial_query shape_intersects shape_within shape_contains
        ?g jakarta_bbox ''intersects'' = Inr ?g"
    by (rule mp [OF q2 [THEN conjunct2, THEN conjunct2, THEN conjunct2, THEN conjunct2]
          conjI [OF law all]])
  have p1: "shape_contains jakarta_bbox (Point (1067/10) (-(62/10)))"
    by (simp add: jakarta_bbox_def)
  have p2: "shape_contains jakarta_bbox (Point (1068/10) (-(63/10)))"
    by (simp add: jakarta_bbox_def)
  show ?thesis
    by (intro conjI p1 p2 i w s)
qed

section \<open>Results about the overlap analysis\<close>

























section \<open>Results about the map service comparison\<close>

text \<open>
  C5. The score is the guarded quotient: the intersection area over the union area
  when the union area is positive, and exactly 0 otherwise; so for a (non-negative)
  union area it is 0 at 0 and the quotient elsewhere. The division is never
  reached with a zero divisor, and when the collaborator delivers a geometry the
  function returns this score together with that geometry.
\<close>

theorem compare_with_google_maps_iou:
  "iou_score intersection_op union_op area a g
     = Inr (if 0 < area (union_op a g)
            then area (intersection_op a g) / area (union_op a g) else 0)
   \<and> (0 \<le> area (union_op a g) \<longrightarrow>
        iou_score intersection_op union_op area a g
          = Inr (if area (union_op a g) = 0 then 0
                 else area (intersection_op a g) / area (union_op a g)))
   \<and> (requests_get_json (geocode_url api_key location_name) = Inr response
        \<and> extract_geometry response = Inr g \<longrightarrow>
        compare_with_google_maps requests_get_json extract_geometry intersection_op union_op
            area api_key location_name a
          = Inr (if 0 < area (union_op a g)
                 then area (intersection_op a g) / area (union_op a g) else 0, g))"
  by (simp add: compare_with_google_maps_def iou_score_def py_truediv_def Let_def)

text \<open>
  The theorem on cell sets with the number of cells as area: three cells against
  two with one in common score 1/4; two empty geometries score 0.
\<close>

theorem compare_with_google_maps_iou_witness:
  "0 \<le> real (card ({0, 1, 2} \<union> {2, 3 :: nat}))
   \<and> iou_score (\<inter>) (\<union>) (\<lambda>g. real (card g)) {0, 1, 2} {2, 3 :: nat} = Inr (1 / 4)
   \<and> (\<lambda>url. Inr ''OK'' :: error + string) (geocode_url ''key'' ''Jakarta'') = Inr ''OK''
   \<and> (\<lambda>response. Inr {2, 3 :: nat} :: error + nat set) ''OK'' = Inr {2, 3}
   \<and> compare_with_google_maps (\<lambda>url. Inr ''OK'') (\<lambda>response. Inr {2, 3 :: nat})
        (\<inter>) (\<union>) (\<lambda>g. real (card g)) ''key'' ''Jakarta'' {0, 1, 2} = Inr (1 / 4, {2, 3})
   \<and> 0 \<le> real (card ({} \<union> {} :: nat set))
   \<and> iou_score (\<inter>) (\<union>) (\<lambda>g. real (card g)) {} ({} :: nat set) = Inr 0"
proof -
  note t1 = compare_with_google_maps_iou
    [of "(\<inter>)" "(\<union>)" "\<lambda>g. real (card g)" "{0, 1, 2}" "{2, 3 :: nat}"
        "\<lambda>url. Inr ''OK''" "''key''" "''Jakarta''" "''OK''" "\<lambda>response. Inr {2, 3 :: nat}"]
  note t2 = compare_with_google_maps_iou
    [of "(\<inter>)" "(\<union>)" "\<lambda>g. real (card g)" "{}" "{} :: nat set"]
  have h1: "0 \<le> real (card ({0, 1, 2} \<union> {2, 3 :: nat}))" by simp
  have h2: "0 \<le> real (card ({} \<union> {} :: nat set))" by simp
  have r1: "iou_score (\<inter>) (\<union>) (\<lambda>g. real (card g)) {0, 1, 2} {2, 3 :: nat} = Inr (1 / 4)"
    using mp [OF t1 [THEN conjunct2, THEN conjunct1] h1]
    by (simp add: card_insert_if)
  have c: "compare_with_google_maps (\<lambda>url. Inr ''OK'') (\<lambda>response. Inr {2, 3 :: nat})
        (\<inter>) (\<union>) (\<lambda>g. real (card g)) ''key'' ''Jakarta'' {0, 1, 2} = Inr (1 / 4, {2, 3})"
    using t1 [THEN conjunct2, THEN conjunct2]
    by (simp add: card_insert_if)
  have r2: "iou_score (\<inter>) (\<union>) (\<lambda>g. real (card g)) {} ({} :: nat set) = Inr 0"
    using mp [OF t2 [THEN conjunct2, THEN conjunct1] h2]
    by simp
  show ?thesis
    by (intro conjI h1 h2 r1 r2 c refl)
qed

text \<open>
  C6. When the collaborator fails, in the request or in the extraction of the
  geometry, the function fails with the same error: no score is returned and no
  geometry is substituted.
\<close>

theorem compare_with_google_maps_propagates:
  "(case requests_get_json (geocode_url api_key location_name) of
      Inl e \<Rightarrow> Inl e | Inr response \<Rightarrow> extract_geometry response) = Inl err \<Longrightarrow>
   compare_with_google_maps requests_get_json extract_geometry intersection_op union_op area
       api_key location_name g = Inl err"
  by (auto simp: compare_with_google_maps_def split: sum.splits)

text \<open>The theorem at a request that times out and at a response without a match.\<close>

theorem compare_with_google_maps_propagates_witness:
  "(case (\<lambda>url. Inl (RequestError ''timeout'') :: error + string)
           (geocode_url ''key'' ''Jakarta'') of
      Inl e \<Rightarrow> Inl e | Inr response \<Rightarrow> (\<lambda>r. Inr jakarta_bbox) response)
     = Inl (RequestError ''timeout'')
   \<and> compare_with_google_maps (\<lambda>url. Inl (RequestError ''timeout'') :: error + string)
        (\<lambda>r. Inr jakarta_bbox) (\<lambda>a b. a) (\<lambda>a b. b) shape_area ''key'' ''Jakarta'' jakarta_bbox
      = Inl (RequestError ''timeout'')
   \<and> (case (\<lambda>url. Inr ''ZERO_RESULTS'' :: error + string)
           (geocode_url ''key'' ''Atlantis'') of
      Inl e \<Rightarrow> Inl e | Inr response \<Rightarrow> (\<lambda>r. Inl (ValueError r) :: error + shape) response)
     = Inl (ValueError ''ZERO_RESULTS'')
   \<and> compare_with_google_maps (\<lambda>url. Inr ''ZERO_RESULTS'' :: error + string)
        (\<lambda>r. Inl (ValueError r)) (\<lambda>a b. a) (\<lambda>a b. b) shape_area ''key'' ''Atlantis''
        jakarta_bbox
      = Inl (ValueError ''ZERO_RESULTS'')"
proof -
  have h1: "(case (\<lambda>url. Inl (RequestError ''timeout'') :: error + string)
           (geocode_url ''key'' ''Jakarta'') of
      Inl e \<Rightarrow> Inl e | Inr response \<Rightarrow> (\<lambda>r. Inr jakarta_bbox) response)
     = Inl (RequestError ''timeout'')"
    by simp
  have h2: "(case (\<lambda>url. Inr ''ZERO_RESULTS'' :: error + string)
           (geocode_url ''key'' ''Atlantis'') of
      Inl e \<Rightarrow> Inl e | Inr response \<Rightarrow> (\<lambda>r. Inl (ValueError r) :: error + shape) response)
     = Inl (ValueError ''ZERO_RESULTS'')"
    by simp
  show ?thesis
    by (intro conjI h1 h2 compare_with_google_maps_propagates [OF h1]
          compare_with_google_maps_propagates [OF h2])
qed

section \<open>Results about the pipeline configuration\<close>

lemma map_of_dict_update:
  "distinct (map fst other) \<Longrightarrow>
     map_of (dict_update d other) k
       = (case map_of other k of Some v \<Rightarrow> Some v | None \<Rightarrow> map_of d k)"
  unfolding dict_update_def
proof (induction other arbitrary: d)
  case Nil
  show ?case by simp
next
  case (Cons kv other)
  then have fresh: "map_of other (fst kv) = None"
    by (simp add: map_of_eq_None_iff)
  from Cons show ?case
    using fresh by (cases kv) (auto simp: update_conv' split: option.splits)
qed

text \<open>
  C9. The merge is a shallow update: a top-level key of the caller's configuration
  takes the caller's value whole, every other key keeps its default. So when the
  caller's value is a nested mapping, a field that only the default mapping had is
  gone, and reading it from the merged configuration raises \<open>KeyError\<close>.
\<close>

theorem merge_config_shallow:
  "distinct (map fst c) \<Longrightarrow>
     map_of (merge_config (Some c)) k
       = (case map_of c k of Some v \<Rightarrow> Some v | None \<Rightarrow> map_of default_config k)
     \<and> (map_of c k = Some (CDict sub) \<and> map_of sub f = None \<longrightarrow>
          config_get2 (merge_config (Some c)) k f = Inl (KeyError f))"
proof -
  assume d: "distinct (map fst c)"
  have look: "map_of (merge_config (Some c)) k
       = (case map_of c k of Some v \<Rightarrow> Some v | None \<Rightarrow> map_of default_config k)"
    using d by (simp add: merge_config_def map_of_dict_update)
  have gone: "config_get2 (merge_config (Some c)) k f = Inl (KeyError f)"
    if "map_of c k = Some (CDict sub) \<and> map_of sub f = None"
    unfolding config_get2_def look using that by simp
  show ?thesis
    using look gone by blast
qed

text \<open>
  The theorem at an override of the target province alone: the merged analysis
  section is the caller's, its default place name is gone, and the database
  section is the default one.
\<close>

theorem merge_config_shallow_witness:
  "distinct (map fst province_override)
   \<and> map_of province_override ''analysis'' = Some (CDict [(''target_province'', CStr ''JI'')])
   \<and> map_of [(''target_province'', CStr ''JI'')] ''place_name'' = None
   \<and> map_of (merge_config (Some province_override)) ''analysis''
       = Some (CDict [(''target_province'', CStr ''JI'')])
   \<and> config_get2 (merge_config (Some province_override)) ''analysis'' ''place_name''
       = Inl (KeyError ''place_name'')
   \<and> config_get2 default_config ''analysis'' ''place_name''
       = Inr (CStr ''Jakarta, Indonesia'')
   \<and> map_of (merge_config (Some province_override)) ''database''
       = map_of default_config ''database''"
proof -
  have d: "distinct (map fst province_override)"
    by (simp add: province_override_def)
  have a: "map_of province_override ''analysis''
      = Some (CDict [(''target_province'', CStr ''JI'')])"
    by (simp add: province_override_def)
  have n: "map_of [(''target_province'', CStr ''JI'')] ''place_name'' = None"
    by simp
  note t = merge_config_shallow
    [OF d, of "''analysis''" "[(''target_province'', CStr ''JI'')]" "''place_name''"]
  note u = merge_config_shallow [OF d, of "''database''"]
  have m: "map_of (merge_config (Some province_override)) ''analysis''
       = Some (CDict [(''target_province'', CStr ''JI'')])"
    using t [THEN conjunct1] by (simp add: a)
  have g: "config_get2 (merge_config (Some province_override)) ''analysis'' ''place_name''
       = Inl (KeyError ''place_name'')"
    by (rule mp [OF t [THEN conjunct2] conjI [OF a n]])
  have g0: "config_get2 default_config ''analysis'' ''place_name''
       = Inr (CStr ''Jakarta, Indonesia'')"
    by (simp add: config_get2_def default_config_def)
  have b: "map_of (merge_config (Some province_override)) ''database''
       = map_of default_config ''database''"
    using u [THEN conjunct1] by (simp add: province_override_def)
  show ?thesis
    by (intro conjI d a n m g g0 b)
qed

text \<open>
  C10. The entry point's configuration has \<open>use_sample_data\<close> true for every parsed
  command line: \<open>args.sample_data or True\<close> is true whether the flag was given or
  not, so the two settings of the flag build the same configuration, and the
  merged configuration of the pipeline has the field true as well.
\<close>

theorem my_config_sample_data:
  "map_of (my_config a) ''use_sample_data'' = Some (CBool True)
   \<and> my_config (a\<lparr>sample_data := True\<rparr>) = my_config (a\<lparr>sample_data := False\<rparr>)
   \<and> map_of (merge_config (Some (my_config a))) ''use_sample_data'' = Some (CBool True)"
  by (simp add: my_config_def py_or_def merge_config_def dict_update_def default_config_def)

end
